theory Spec2Isabelle
  imports Complex_Main
begin

section \<open>Python values\<close>

text \<open>
  A Python float is a finite binary fraction, an infinity or NaN. A comparison of floats
  is exact, so a finite float is modelled by the rational number it denotes (an \<open>int\<close>
  argument such as \<open>0\<close> or \<open>1\<close> is the same rational). The one quotient the code
  computes, the mean of a boolean column, is rounded to the nearest float, see
  \<open>float_div\<close> below.
\<close>

datatype pyfloat = NaN | NegInf | Finite rat | PosInf

text \<open>\<open>a < b\<close>, \<open>a == b\<close>, \<open>a > b\<close> and \<open>a >= b\<close> on floats: every comparison with NaN is false.\<close>

fun fl_lt :: "pyfloat \<Rightarrow> pyfloat \<Rightarrow> bool" where
  "fl_lt (Finite x) (Finite y) = (x < y)"
| "fl_lt NegInf (Finite y) = True"
| "fl_lt NegInf PosInf = True"
| "fl_lt (Finite x) PosInf = True"
| "fl_lt _ _ = False"

fun fl_eq :: "pyfloat \<Rightarrow> pyfloat \<Rightarrow> bool" where
  "fl_eq NaN _ = False"
| "fl_eq _ NaN = False"
| "fl_eq a b = (a = b)"

definition fl_gt :: "pyfloat \<Rightarrow> pyfloat \<Rightarrow> bool" where
  "fl_gt a b = fl_lt b a"

definition fl_ge :: "pyfloat \<Rightarrow> pyfloat \<Rightarrow> bool" where
  "fl_ge a b = (fl_lt b a \<or> fl_eq a b)"

definition fl_le :: "pyfloat \<Rightarrow> pyfloat \<Rightarrow> bool" where
  "fl_le a b = fl_ge b a"

text \<open>
  The values that occur as parameters, class attributes and dictionary entries in the
  notebook. A dictionary literal keeps its entries in the order they are written;
  \<open>PClass\<close> is a reference to a class by its name and \<open>PCall\<close> a call of a named
  constructor on its arguments.
\<close>

datatype pyval =
    PNone
  | PNum pyfloat
  | PStr string
  | PClass string
  | PList "pyval list"
  | PCall string "pyval list"
  | PDict "(string \<times> pyval) list"

datatype error = ValueError | KeyError | AttributeError | TypeError

datatype 'a result = Return 'a | Raise error

section \<open>Data frames\<close>

text \<open>
  A data frame is the list of its columns in order, each a label with its cells; a null
  cell (None, NaN, NaT) is \<open>None\<close>. Labels may repeat, as in pandas. A series of floats
  indexed by column labels is a list of pairs.
\<close>

type_synonym ('k, 'v) frame = "('k \<times> 'v option list) list"

type_synonym 'k series = "('k \<times> pyfloat) list"

definition isnull :: "'v option \<Rightarrow> bool" where
  "isnull v = (v = None)"

text \<open>
  The float quotient \<open>k / n\<close> of two counts with \<open>k \<le> n\<close>, as IEEE 754 double precision
  division gives it: the exact quotient rounded to the nearest number with a 53-bit
  significand, a tie going to the even significand. \<open>shift k n\<close> is the least \<open>j\<close> with
  \<open>n \<le> k * 2 ^ j\<close>, so that \<open>k * 2 ^ (j + 52) / n\<close> lies between \<open>2 ^ 52\<close> and \<open>2 ^ 53\<close> and
  is rounded to an integer. Counts below \<open>2 ^ 53\<close> are floats themselves, and the
  quotient of two of them is far above the underflow range.
\<close>

function shift :: "nat \<Rightarrow> nat \<Rightarrow> nat" where
  "shift k n = (if 0 < k \<and> k < n then Suc (shift (2 * k) n) else 0)"
  by pat_completeness auto
termination
  by (relation "measure (\<lambda>(k, n). n - k)") auto

declare shift.simps [simp del]

definition round_half_even :: "nat \<Rightarrow> nat \<Rightarrow> nat" where
  "round_half_even a b =
     (let f = a div b; r = a mod b
      in if 2 * r < b then f
         else if b < 2 * r then f + 1
         else if even f then f else f + 1)"

definition float_div :: "nat \<Rightarrow> nat \<Rightarrow> rat" where
  "float_div k n =
     (let s = shift k n + 52
      in of_nat (round_half_even (k * 2 ^ s) n) / 2 ^ s)"

text \<open>
  \<open>DataFrame.mean\<close> on a column of booleans: the float sum of the cells, which is the
  number of True cells, divided by the float number of rows; NaN when there is no row.
\<close>

definition mean :: "bool list \<Rightarrow> pyfloat" where
  "mean bs =
     (if bs = [] then NaN
      else Finite (float_div (length (filter (\<lambda>b. b) bs)) (length bs)))"

text \<open>\<open>X.isnull().mean()\<close>: one entry per column, in column order.\<close>

definition isnull_mean :: "('k, 'v) frame \<Rightarrow> 'k series" where
  "isnull_mean X = map (\<lambda>(c, col). (c, mean (map isnull col))) X"

text \<open>\<open>s[mask]\<close> for a boolean mask computed entry by entry, and \<open>list(s.index)\<close>.\<close>

definition mask :: "(pyfloat \<Rightarrow> bool) \<Rightarrow> 'k series \<Rightarrow> 'k series" where
  "mask p s = filter (\<lambda>(c, v). p v) s"

definition index :: "'k series \<Rightarrow> 'k list" where
  "index s = map fst s"

text \<open>
  \<open>X.drop(columns=cols)\<close> on the woodwork table that \<open>infer_feature_types\<close> returns: with
  \<open>cols\<close> None, or with a label that is no column of \<open>X\<close>, the call raises ValueError;
  else every column whose label is listed is removed and the others are kept as they
  are.
\<close>

definition drop_columns :: "('k, 'v) frame \<Rightarrow> 'k list option \<Rightarrow> ('k, 'v) frame result" where
  "drop_columns X cols =
     (case cols of
        None \<Rightarrow> Raise ValueError
      | Some cs \<Rightarrow>
          if list_ex (\<lambda>c. c \<notin> set (map fst X)) cs then Raise ValueError
          else Return (filter (\<lambda>(c, col). c \<notin> set cs) X))"

text \<open>
  Modelled from the spec: \<open>infer_feature_types\<close> and \<open>_convert_woodwork_types_wrapper\<close>
  are only imported by the notebook (from \<open>evalml.utils\<close>); their code is missing.
  They wrap the frame in a woodwork table and convert the types of its columns; the
  labels, the rows and which cells are null are taken to be left as they are. A woodwork
  table has distinct labels: the statements about \<open>fit\<close> returning and about the result
  of \<open>transform\<close> are made for frames with distinct labels.
\<close>

definition infer_feature_types :: "('k, 'v) frame \<Rightarrow> ('k, 'v) frame" where
  "infer_feature_types X = X"

definition convert_woodwork_types_wrapper :: "('k, 'v) frame \<Rightarrow> ('k, 'v) frame" where
  "convert_woodwork_types_wrapper X = X"

section \<open>The transformer MyDropNullColumns\<close>

text \<open>
  The instance attributes of a transformer. An attribute that has not been assigned yet
  is \<open>None\<close>; \<open>_cols_to_drop\<close> assigned Python's None is \<open>Some None\<close>. Each method takes
  the instance and returns its result with the instance after the call.
\<close>

record 'k transformer =
  cols_to_drop :: "'k list option option"
  parameters :: "(string \<rightharpoonup> pyval) option"
  component_obj :: "pyval option"
  random_seed :: "int option"

definition fresh :: "'k transformer" where
  "fresh = \<lparr>cols_to_drop = None, parameters = None, component_obj = None, random_seed = None\<rparr>"

text \<open>
  Modelled from the spec: \<open>Transformer.__init__\<close> of \<open>evalml.pipelines.components\<close> is
  only called by the notebook; its code is missing. It is taken to store the parameters,
  the component object and the seed it is given on the instance.
\<close>

definition Transformer_init ::
  "(string \<rightharpoonup> pyval) \<Rightarrow> pyval \<Rightarrow> int \<Rightarrow> 'k transformer \<Rightarrow> 'k transformer" where
  "Transformer_init ps obj seed self =
     self\<lparr>parameters := Some ps, component_obj := Some obj, random_seed := Some seed\<rparr>"

text \<open>
  \<open>MyDropNullColumns.__init__(self, pct_null_threshold=1.0, random_seed=0, **kwargs)\<close>.
  Python binds a keyword that names a parameter to that parameter, so \<open>kwargs\<close> never
  holds the key \<open>pct_null_threshold\<close>.
\<close>

definition default_pct_null_threshold :: pyfloat where
  "default_pct_null_threshold = Finite 1"

definition default_random_seed :: int where
  "default_random_seed = 0"

definition MyDropNullColumns_init ::
  "pyfloat \<Rightarrow> int \<Rightarrow> (string \<rightharpoonup> pyval) \<Rightarrow> 'k transformer \<Rightarrow> unit result \<times> 'k transformer" where
  "MyDropNullColumns_init pct_null_threshold seed kwargs self =
     (if fl_lt pct_null_threshold (Finite 0) \<or> fl_gt pct_null_threshold (Finite 1)
      then (Raise ValueError, self)
      else
        let ps = [''pct_null_threshold'' \<mapsto> PNum pct_null_threshold] ++ kwargs;
            self1 = self\<lparr>cols_to_drop := Some None\<rparr>
        in (Return (), Transformer_init ps PNone seed self1))"

text \<open>
  What \<open>fit\<close> hands back: \<open>Self\<close> is the reference to the receiver, from \<open>return self\<close>;
  \<open>NoneValue\<close> is what a method that ends with no \<open>return\<close> hands back. Reading
  \<open>self.parameters\<close> before it is assigned is an AttributeError, a missing key a KeyError,
  and a threshold that is no number cannot be compared with the means.
\<close>

datatype returned = Self | NoneValue

definition fit :: "'k transformer \<Rightarrow> ('k, 'v) frame \<Rightarrow> returned result \<times> 'k transformer" where
  "fit self X =
     (case parameters self of
        None \<Rightarrow> (Raise AttributeError, self)
      | Some ps \<Rightarrow>
          (case ps ''pct_null_threshold'' of
             None \<Rightarrow> (Raise KeyError, self)
           | Some (PNum pct_null_threshold) \<Rightarrow>
               let X1 = infer_feature_types X;
                   X2 = convert_woodwork_types_wrapper X1;
                   percent_null = isnull_mean X2;
                   null_cols =
                     (if fl_eq pct_null_threshold (Finite 0)
                      then mask (\<lambda>p. fl_gt p (Finite 0)) percent_null
                      else mask (\<lambda>p. fl_ge p pct_null_threshold) percent_null)
               in (Return Self, self\<lparr>cols_to_drop := Some (Some (index null_cols))\<rparr>)
           | Some _ \<Rightarrow> (Raise TypeError, self)))"

definition transform :: "'k transformer \<Rightarrow> ('k, 'v) frame \<Rightarrow> ('k, 'v) frame result \<times> 'k transformer" where
  "transform self X =
     (case cols_to_drop self of
        None \<Rightarrow> (Raise AttributeError, self)
      | Some cols \<Rightarrow> (drop_columns (infer_feature_types X) cols, self))"

text \<open>
  The call \<open>MyDropNullColumns(...)\<close>: a new instance with no attribute, initialised with
  the arguments given and the defaults of the signature for the others.
\<close>

definition MyDropNullColumns ::
  "pyfloat option \<Rightarrow> int option \<Rightarrow> (string \<rightharpoonup> pyval) \<Rightarrow> unit result \<times> 'k transformer" where
  "MyDropNullColumns pct_null_threshold seed kwargs =
     MyDropNullColumns_init
       (case pct_null_threshold of None \<Rightarrow> default_pct_null_threshold | Some t \<Rightarrow> t)
       (case seed of None \<Rightarrow> default_random_seed | Some n \<Rightarrow> n)
       kwargs fresh"

section \<open>The classes and instantiations of the notebook\<close>

text \<open>A class statement: the name, the base class and the class variables in order.\<close>

record class_def =
  class_name :: string
  base :: string
  attrs :: "(string \<times> pyval) list"

definition CustomMulticlassClassificationPipeline :: class_def where
  "CustomMulticlassClassificationPipeline =
     \<lparr>class_name = ''CustomMulticlassClassificationPipeline'',
      base = ''MulticlassClassificationPipeline'',
      attrs = [(''component_graph'', PList [PStr ''Imputer'', PStr ''Random Forest Classifier''])]\<rparr>"

definition nonlinear_component_graph :: "(string \<times> pyval) list" where
  "nonlinear_component_graph =
     [(''Imputer'', PList [PStr ''Imputer'']),
      (''Encoder'', PList [PStr ''One Hot Encoder'', PStr ''Imputer'']),
      (''Random Forest Clf'', PList [PStr ''Random Forest Classifier'', PStr ''Encoder'']),
      (''Elastic Net Clf'', PList [PStr ''Elastic Net Classifier'', PStr ''Encoder'']),
      (''Final Estimator'',
         PList [PStr ''Logistic Regression Classifier'', PStr ''Random Forest Clf'',
                PStr ''Elastic Net Clf''])]"

definition CustomNonlinearMulticlassClassificationPipeline :: class_def where
  "CustomNonlinearMulticlassClassificationPipeline =
     \<lparr>class_name = ''CustomNonlinearMulticlassClassificationPipeline'',
      base = ''MulticlassClassificationPipeline'',
      attrs = [(''component_graph'', PDict nonlinear_component_graph)]\<rparr>"

definition NewTransformer :: class_def where
  "NewTransformer =
     \<lparr>class_name = ''NewTransformer'',
      base = ''Transformer'',
      attrs = [(''name'', PStr ''New Transformer''),
               (''hyperparameter_ranges'',
                  PDict [(''parameter_1'', PList [PStr ''a'', PStr ''b'', PStr ''c''])])]\<rparr>"

definition CustomComponentMulticlassClassificationPipeline :: class_def where
  "CustomComponentMulticlassClassificationPipeline =
     \<lparr>class_name = ''CustomComponentMulticlassClassificationPipeline'',
      base = ''MulticlassClassificationPipeline'',
      attrs = [(''component_graph'',
                  PList [PClass ''NewTransformer'', PStr ''Random Forest Classifier''])]\<rparr>"

text \<open>\<open>CustomPipeline\<close> is defined four times; each definition replaces the one before.\<close>

definition CustomPipeline_1 :: class_def where
  "CustomPipeline_1 =
     \<lparr>class_name = ''CustomPipeline'',
      base = ''MulticlassClassificationPipeline'',
      attrs = [(''component_graph'',
                  PList [PStr ''Imputer'', PStr ''One Hot Encoder'',
                         PStr ''Logistic Regression Classifier'']),
               (''custom_name'', PStr ''A custom pipeline name'')]\<rparr>"

definition CustomPipeline_2 :: class_def where
  "CustomPipeline_2 =
     \<lparr>class_name = ''CustomPipeline'',
      base = ''MulticlassClassificationPipeline'',
      attrs = [(''component_graph'',
                  PList [PStr ''Imputer'', PStr ''One Hot Encoder'', PStr ''Standard Scaler'',
                         PStr ''Logistic Regression Classifier''])]\<rparr>"

definition CustomPipeline_3 :: class_def where
  "CustomPipeline_3 =
     \<lparr>class_name = ''CustomPipeline'',
      base = ''MulticlassClassificationPipeline'',
      attrs = [(''component_graph'',
                  PList [PStr ''Imputer'', PStr ''One Hot Encoder'', PStr ''Standard Scaler'',
                         PStr ''Logistic Regression Classifier'']),
               (''custom_hyperparameters'',
                  PDict [(''Simple Imputer'',
                            PDict [(''impute_strategy'',
                                      PCall ''Categorical'' [PList [PStr ''most_frequent'']]),
                                   (''another_hyperparameter'', PList [PStr ''value''])])])]\<rparr>"

definition MyDropNullColumns_class :: class_def where
  "MyDropNullColumns_class =
     \<lparr>class_name = ''MyDropNullColumns'',
      base = ''Transformer'',
      attrs = [(''name'', PStr ''My Drop Null Columns Transformer''),
               (''hyperparameter_ranges'', PDict [])]\<rparr>"

definition CustomPipeline_4 :: class_def where
  "CustomPipeline_4 =
     \<lparr>class_name = ''CustomPipeline'',
      base = ''MulticlassClassificationPipeline'',
      attrs = [(''name'', PStr ''Custom Pipeline''),
               (''component_graph'',
                  PList [PStr ''Imputer'', PClass ''MyDropNullColumns'',
                         PStr ''DateTime Featurization Component'', PStr ''One Hot Encoder'',
                         PStr ''Random Forest Classifier'']),
               (''custom_hyperparameters'',
                  PDict [(''Imputer'',
                            PDict [(''numeric_impute_strategy'',
                                      PList [PStr ''mean'', PStr ''median''])])])]\<rparr>"

definition class_defs :: "class_def list" where
  "class_defs =
     [CustomMulticlassClassificationPipeline, CustomNonlinearMulticlassClassificationPipeline,
      NewTransformer, CustomComponentMulticlassClassificationPipeline, CustomPipeline_1,
      CustomPipeline_2, CustomPipeline_3, MyDropNullColumns_class, CustomPipeline_4]"

text \<open>
  The pipeline instantiations in the order they are written: the class as defined at that
  point, with the value passed as \<open>parameters\<close>.
\<close>

definition parameters_cell :: pyval where
  "parameters_cell =
     PDict [(''Imputer'',
               PDict [(''categorical_impute_strategy'', PStr ''most_frequent''),
                      (''numeric_impute_strategy'', PStr ''median'')]),
            (''Logistic Regression Classifier'',
               PDict [(''penalty'', PStr ''l2''), (''C'', PNum (Finite 1))])]"

definition instantiations :: "(class_def \<times> pyval) list" where
  "instantiations =
     [(CustomMulticlassClassificationPipeline, PDict []),
      (CustomPipeline_3, PDict []),
      (CustomPipeline_3, parameters_cell),
      (CustomNonlinearMulticlassClassificationPipeline, PDict []),
      (CustomPipeline_4, PDict [(''Imputer'', PDict [(''numeric_impute_strategy'', PStr ''median'')])])]"

section \<open>Reading the declarations\<close>

fun is_list :: "pyval \<Rightarrow> bool" where
  "is_list (PList xs) = True"
| "is_list _ = False"

fun is_dict :: "pyval \<Rightarrow> bool" where
  "is_dict (PDict d) = True"
| "is_dict _ = False"

text \<open>The class variable \<open>a\<close> of a class, and of the class named \<open>c\<close> as last defined.\<close>

definition class_var :: "class_def \<Rightarrow> string \<Rightarrow> pyval option" where
  "class_var cd a = map_of (attrs cd) a"

definition named_class_var :: "string \<Rightarrow> string \<Rightarrow> pyval option" where
  "named_class_var c a =
     (case find (\<lambda>cd. class_name cd = c) (rev class_defs) of
        None \<Rightarrow> None
      | Some cd \<Rightarrow> class_var cd a)"

text \<open>
  An entry of a component-graph dictionary is a list: the component first, then the
  parents of the node. \<open>edges\<close> are the parent links, from a parent to the node.
\<close>

fun parents :: "pyval \<Rightarrow> pyval list" where
  "parents (PList (c # ps)) = ps"
| "parents _ = []"

definition edges :: "(string \<times> pyval) list \<Rightarrow> (pyval \<times> pyval) list" where
  "edges g = concat (map (\<lambda>(k, v). map (\<lambda>p. (p, PStr k)) (parents v)) g)"

text \<open>
  A well-formed entry, given the keys of the dictionary: a non-empty list whose first
  element is a non-empty name and whose other elements are keys.
\<close>

definition is_key :: "string list \<Rightarrow> pyval \<Rightarrow> bool" where
  "is_key ks p = (case p of PStr s \<Rightarrow> s \<in> set ks | _ \<Rightarrow> False)"

definition entry_ok :: "string list \<Rightarrow> pyval \<Rightarrow> bool" where
  "entry_ok ks v =
     (case v of
        PList (PStr c # ps) \<Rightarrow> c \<noteq> [] \<and> list_all (is_key ks) ps
      | _ \<Rightarrow> False)"

text \<open>
  \<open>order\<close> is a topological order of the graph: it lists every key once, and every
  parent of a node stands before the node.
\<close>

definition before :: "string list \<Rightarrow> string \<Rightarrow> string list" where
  "before order k = takeWhile (\<lambda>x. x \<noteq> k) order"

definition topological :: "(string \<times> pyval) list \<Rightarrow> string list \<Rightarrow> bool" where
  "topological g order =
     (distinct order \<and> set order = set (map fst g)
      \<and> list_all (\<lambda>(k, v). list_all (is_key (before order k)) (parents v)) g)"

text \<open>
  The names under which the components of a pipeline class are addressed: the strings
  of a list graph (a custom component class by its \<open>name\<close> variable), the keys of a
  dictionary graph.
\<close>

definition component_name :: "pyval \<Rightarrow> string list" where
  "component_name x =
     (case x of
        PStr s \<Rightarrow> [s]
      | PClass c \<Rightarrow> (case named_class_var c ''name'' of Some (PStr n) \<Rightarrow> [n] | _ \<Rightarrow> [])
      | _ \<Rightarrow> [])"

definition component_names :: "class_def \<Rightarrow> string list" where
  "component_names cd =
     (case class_var cd ''component_graph'' of
        Some (PList xs) \<Rightarrow> concat (map component_name xs)
      | Some (PDict d) \<Rightarrow> map fst d
      | _ \<Rightarrow> [])"

text \<open>
  A two-level parameters dictionary for a class: every key is a component name of the
  class and every value a dictionary from parameter names to plain values.
\<close>

fun is_plain :: "pyval \<Rightarrow> bool" where
  "is_plain (PStr s) = True"
| "is_plain (PNum x) = True"
| "is_plain _ = False"

definition component_parameters :: "pyval \<Rightarrow> bool" where
  "component_parameters v =
     (case v of PDict ps \<Rightarrow> list_all (\<lambda>(n, x). is_plain x) ps | _ \<Rightarrow> False)"

definition two_level :: "class_def \<Rightarrow> pyval \<Rightarrow> bool" where
  "two_level cd v =
     (case v of
        PDict d \<Rightarrow>
          distinct (map fst d)
          \<and> list_all (\<lambda>(k, ps). k \<in> set (component_names cd) \<and> component_parameters ps) d
      | _ \<Rightarrow> False)"

text \<open>The pipeline classes of the notebook are the classes named \<open>...Pipeline\<close>.\<close>

definition ends_with :: "string \<Rightarrow> string \<Rightarrow> bool" where
  "ends_with s n = (length s \<le> length n \<and> drop (length n - length s) n = s)"

definition is_pipeline_class :: "class_def \<Rightarrow> bool" where
  "is_pipeline_class cd = ends_with ''Pipeline'' (class_name cd)"

text \<open>
  A component in a list graph: a non-empty name, or a class that the notebook defines as
  a subclass of \<open>Transformer\<close>. A component graph: a non-empty list of components, or a
  dictionary with distinct keys whose entries are well formed.
\<close>

definition is_component :: "pyval \<Rightarrow> bool" where
  "is_component x =
     (case x of
        PStr s \<Rightarrow> s \<noteq> []
      | PClass c \<Rightarrow> list_ex (\<lambda>cd. class_name cd = c \<and> base cd = ''Transformer'') class_defs
      | _ \<Rightarrow> False)"

definition component_graph_ok :: "pyval \<Rightarrow> bool" where
  "component_graph_ok v =
     (case v of
        PList xs \<Rightarrow> xs \<noteq> [] \<and> list_all is_component xs
      | PDict d \<Rightarrow>
          d \<noteq> [] \<and> distinct (map fst d) \<and> list_all (entry_ok (map fst d)) (map snd d)
      | _ \<Rightarrow> False)"

definition pipeline_class_ok :: "class_def \<Rightarrow> bool" where
  "pipeline_class_ok cd =
     (base cd = ''MulticlassClassificationPipeline''
      \<and> (case class_var cd ''component_graph'' of
            Some v \<Rightarrow> (is_list v \<or> is_dict v) \<and> component_graph_ok v
          | None \<Rightarrow> False))"

section \<open>The constructor\<close>

lemma fl_le_Finite: "fl_le (Finite x) (Finite y) = (x \<le> y)"
  by (auto simp: fl_le_def fl_ge_def)

lemma fl_interval_cases:
  "(fl_le (Finite 0) t \<and> fl_le t (Finite 1)) = (\<exists>x. t = Finite x \<and> 0 \<le> x \<and> x \<le> 1)"
  by (cases t) (auto simp: fl_le_def fl_ge_def)

lemma in_range_not_raise:
  "fl_le (Finite 0) t \<Longrightarrow> fl_le t (Finite 1) \<Longrightarrow> \<not> (fl_lt t (Finite 0) \<or> fl_gt t (Finite 1))"
  by (cases t) (auto simp: fl_le_def fl_ge_def fl_gt_def)

lemma init_out_of_range:
  "fl_lt t (Finite 0) \<or> fl_gt t (Finite 1) \<Longrightarrow>
     MyDropNullColumns_init t seed kwargs self = (Raise ValueError, self)"
  by (simp add: MyDropNullColumns_init_def)

lemma init_in_range:
  "\<not> (fl_lt t (Finite 0) \<or> fl_gt t (Finite 1)) \<Longrightarrow>
     MyDropNullColumns_init t seed kwargs self =
       (Return (),
        self\<lparr>cols_to_drop := Some None,
             parameters := Some ([''pct_null_threshold'' \<mapsto> PNum t] ++ kwargs),
             component_obj := Some PNone, random_seed := Some seed\<rparr>)"
  by (simp add: MyDropNullColumns_init_def Transformer_init_def)

lemma threshold_kept:
  "kwargs ''pct_null_threshold'' = None \<Longrightarrow>
     ([''pct_null_threshold'' \<mapsto> PNum t] ++ kwargs) ''pct_null_threshold'' = Some (PNum t)"
  by (simp add: map_add_def)

text \<open>
  C1. The constructor raises ValueError exactly when the threshold is below 0 or above 1,
  and raises nothing else. For every threshold in the closed interval from 0 to 1, both
  ends included, it returns normally and the parameters hold the threshold under
  \<open>pct_null_threshold\<close>. When it raises, the instance is as it was before the call: on a
  new instance neither \<open>parameters\<close> nor \<open>_cols_to_drop\<close> has been created.
\<close>

theorem init_raises_iff_out_of_range:
  fixes self :: "'k transformer"
  assumes "kwargs ''pct_null_threshold'' = None"
  shows "(fst (MyDropNullColumns_init t seed kwargs self) = Raise ValueError
            \<longleftrightarrow> fl_lt t (Finite 0) \<or> fl_gt t (Finite 1))
       \<and> (fst (MyDropNullColumns_init t seed kwargs self) \<noteq> Raise ValueError
            \<longrightarrow> fst (MyDropNullColumns_init t seed kwargs self) = Return ())
       \<and> (fl_le (Finite 0) t \<and> fl_le t (Finite 1) \<longrightarrow>
            fst (MyDropNullColumns_init t seed kwargs self) = Return ()
          \<and> (\<exists>ps. parameters (snd (MyDropNullColumns_init t seed kwargs self)) = Some ps
                  \<and> ps ''pct_null_threshold'' = Some (PNum t)))
       \<and> (\<forall>e. fst (MyDropNullColumns_init t seed kwargs self) = Raise e \<longrightarrow>
            snd (MyDropNullColumns_init t seed kwargs self) = self)
       \<and> (\<forall>e. fst (MyDropNullColumns_init t seed kwargs (fresh :: 'k transformer)) = Raise e \<longrightarrow>
            parameters (snd (MyDropNullColumns_init t seed kwargs (fresh :: 'k transformer))) = None
          \<and> cols_to_drop (snd (MyDropNullColumns_init t seed kwargs (fresh :: 'k transformer))) = None)"
proof (cases "fl_lt t (Finite 0) \<or> fl_gt t (Finite 1)")
  case True
  have n: "\<not> (fl_le (Finite 0) t \<and> fl_le t (Finite 1))"
    using True in_range_not_raise by blast
  have f: "parameters (fresh :: 'k transformer) = None \<and> cols_to_drop (fresh :: 'k transformer) = None"
    by (simp add: fresh_def)
  show ?thesis
    unfolding init_out_of_range [OF True] using True n f by simp
next
  case False
  show ?thesis
    unfolding init_in_range [OF False] using False threshold_kept [of kwargs t] assms by simp
qed

theorem init_raises_iff_out_of_range_witness:
  "fst (MyDropNullColumns_init (Finite (1/2)) 7 Map.empty (fresh :: string transformer)) = Return ()
   \<and> (\<exists>ps. parameters (snd (MyDropNullColumns_init (Finite (1/2)) 7 Map.empty (fresh :: string transformer))) = Some ps
                  \<and> ps ''pct_null_threshold'' = Some (PNum (Finite (1/2))))
   \<and> fst (MyDropNullColumns_init (Finite 2) 7 Map.empty (fresh :: string transformer)) = Raise ValueError
   \<and> snd (MyDropNullColumns_init (Finite 2) 7 Map.empty (fresh :: string transformer)) = fresh
   \<and> fst (MyDropNullColumns_init (Finite 0) 7 Map.empty (fresh :: string transformer)) = Return ()
   \<and> fst (MyDropNullColumns_init (Finite 1) 7 Map.empty (fresh :: string transformer)) = Return ()"
proof -
  have k: "(Map.empty :: string \<rightharpoonup> pyval) ''pct_null_threshold'' = None"
    by simp
  note T = init_raises_iff_out_of_range [where kwargs = "Map.empty" and seed = 7
      and self = "fresh :: string transformer", OF k]
  have r: "fl_le (Finite 0) (Finite (1/2)) \<and> fl_le (Finite (1/2)) (Finite 1)"
    by (simp add: fl_le_def fl_ge_def)
  have r0: "fl_le (Finite 0) (Finite 0) \<and> fl_le (Finite 0) (Finite 1)"
    by (simp add: fl_le_def fl_ge_def)
  have r1: "fl_le (Finite 0) (Finite 1) \<and> fl_le (Finite 1) (Finite 1)"
    by (simp add: fl_le_def fl_ge_def)
  have o: "fl_lt (Finite 2) (Finite 0) \<or> fl_gt (Finite 2) (Finite 1)"
    by (simp add: fl_gt_def)
  have a: "fst (MyDropNullColumns_init (Finite (1/2)) 7 Map.empty (fresh :: string transformer)) = Return ()
   \<and> (\<exists>ps. parameters (snd (MyDropNullColumns_init (Finite (1/2)) 7 Map.empty (fresh :: string transformer))) = Some ps
                  \<and> ps ''pct_null_threshold'' = Some (PNum (Finite (1/2))))"
    using T [where t = "Finite (1/2)", THEN conjunct2, THEN conjunct2, THEN conjunct1] r
    by (rule mp)
  have b: "fst (MyDropNullColumns_init (Finite 2) 7 Map.empty (fresh :: string transformer)) = Raise ValueError"
    using T [where t = "Finite 2", THEN conjunct1] o by (rule iffD2)
  have c: "snd (MyDropNullColumns_init (Finite 2) 7 Map.empty (fresh :: string transformer)) = fresh"
    using T [where t = "Finite 2", THEN conjunct2, THEN conjunct2, THEN conjunct2, THEN conjunct1] b
    by blast
  have d: "fst (MyDropNullColumns_init (Finite 0) 7 Map.empty (fresh :: string transformer)) = Return ()"
    using T [where t = "Finite 0", THEN conjunct2, THEN conjunct2, THEN conjunct1] r0 by blast
  have e: "fst (MyDropNullColumns_init (Finite 1) 7 Map.empty (fresh :: string transformer)) = Return ()"
    using T [where t = "Finite 1", THEN conjunct2, THEN conjunct2, THEN conjunct1] r1 by blast
  show ?thesis
    using a b c d e by (intro conjI) blast+
qed

section \<open>The float quotient\<close>

lemma shift_reaches: "0 < k \<Longrightarrow> n \<le> k * 2 ^ shift k n"
proof (induction k n rule: shift.induct)
  case (1 k n)
  show ?case
  proof (cases "k < n")
    case True
    with "1.prems" have s: "shift k n = Suc (shift (2 * k) n)"
      by (simp add: shift.simps [of k n])
    from "1.IH" "1.prems" True have "n \<le> 2 * k * 2 ^ shift (2 * k) n"
      by simp
    with s show ?thesis by (simp add: mult_ac)
  next
    case False
    then have "shift k n = 0" by (simp add: shift.simps [of k n])
    with False show ?thesis by simp
  qed
qed

lemma shift_least: "0 < k \<Longrightarrow> k < n \<Longrightarrow> k * 2 ^ shift k n < 2 * n"
proof (induction k n rule: shift.induct)
  case (1 k n)
  from "1.prems" have s: "shift k n = Suc (shift (2 * k) n)"
    by (simp add: shift.simps [of k n])
  show ?case
  proof (cases "2 * k < n")
    case True
    with "1.IH" "1.prems" have "2 * k * 2 ^ shift (2 * k) n < 2 * n"
      by simp
    with s show ?thesis by (simp add: mult_ac)
  next
    case False
    then have "shift (2 * k) n = 0" by (simp add: shift.simps [of "2 * k" n])
    with s "1.prems" show ?thesis by simp
  qed
qed

lemma shift_pos: "0 < k \<Longrightarrow> k < n \<Longrightarrow> 0 < shift k n"
  by (simp add: shift.simps [of k n])

lemma round_ge_floor: "a div b \<le> round_half_even a b"
  by (simp add: round_half_even_def Let_def)

lemma round_le_Suc_floor: "round_half_even a b \<le> Suc (a div b)"
  by (simp add: round_half_even_def Let_def)

lemma round_exact: "0 < b \<Longrightarrow> round_half_even (m * b) b = m"
  by (simp add: round_half_even_def Let_def)

lemma float_div_zero: "float_div 0 n = 0"
  by (simp add: float_div_def round_half_even_def Let_def)

lemma float_div_pos:
  assumes "0 < k" and "0 < n"
  shows "0 < float_div k n"
proof -
  let ?s = "shift k n + 52"
  have "n \<le> k * 2 ^ shift k n" using assms(1) by (rule shift_reaches)
  then have "n * 1 \<le> (k * 2 ^ shift k n) * 2 ^ 52"
    by (intro mult_le_mono) simp_all
  then have "n \<le> k * 2 ^ ?s" by (simp add: power_add mult_ac)
  then have "1 \<le> (k * 2 ^ ?s) div n"
    using assms(2) by (simp add: Suc_le_eq div_greater_zero_iff)
  with round_ge_floor [of "k * 2 ^ ?s" n] have "0 < round_half_even (k * 2 ^ ?s) n"
    by linarith
  then show ?thesis by (simp add: float_div_def Let_def)
qed

lemma float_div_self: "0 < n \<Longrightarrow> float_div n n = 1"
proof -
  assume n: "0 < n"
  have s: "shift n n = 0" by (simp add: shift.simps [of n n])
  have "round_half_even (2 ^ 52 * n) n = 2 ^ 52" using n by (rule round_exact)
  then show ?thesis by (simp add: float_div_def s mult.commute)
qed

lemma float_div_less_one:
  assumes "k < n" and "n \<le> 2 ^ 53"
  shows "float_div k n < 1"
proof (cases "k = 0")
  case True
  then show ?thesis by (simp add: float_div_zero)
next
  case False
  then have k: "0 < k" by simp
  let ?j = "shift k n"
  let ?s = "?j + 52"
  let ?a = "k * 2 ^ ?s"
  have j: "0 < ?j" using k assms(1) by (rule shift_pos)
  have lt: "k * 2 ^ ?j < 2 * n" using k assms(1) by (rule shift_least)
  have r: "round_half_even ?a n < 2 ^ ?s"
  proof (cases "?j = 1")
    case True
    then have a: "?a = k * 2 ^ 53" by simp
    have "Suc k \<le> n" using assms(1) by simp
    then have "Suc k * 2 ^ 53 \<le> n * 2 ^ 53" by (rule mult_le_mono1)
    then have "k * 2 ^ 53 + 2 ^ 53 \<le> n * 2 ^ 53" by simp
    with assms(2) have b: "k * 2 ^ 53 + n \<le> n * 2 ^ 53" by linarith
    have d: "?a = (?a div n) * n + ?a mod n" by simp
    show ?thesis
    proof (cases "?a div n < 2 ^ 53 - 1")
      case True
      with round_le_Suc_floor [of ?a n] have "round_half_even ?a n < 2 ^ 53" by linarith
      then show ?thesis using \<open>?j = 1\<close> by simp
    next
      case False
      then have f: "2 ^ 53 - 1 \<le> ?a div n" by simp
      then have "(2 ^ 53 - 1) * n \<le> (?a div n) * n" by (rule mult_le_mono1)
      with d have "(2 ^ 53 - 1) * n + ?a mod n \<le> ?a" by linarith
      with a b have "(2 ^ 53 - 1) * n + ?a mod n + n \<le> n * 2 ^ 53" by linarith
      moreover have "(2 ^ 53 - 1) * n + n = n * 2 ^ 53"
        by (simp add: algebra_simps)
      ultimately have m: "?a mod n = 0" by linarith
      have "?a div n * n \<le> ?a" by simp
      with a b have "?a div n * n + n \<le> n * 2 ^ 53" by linarith
      then have "(?a div n + 1) * n \<le> 2 ^ 53 * n" by (simp add: algebra_simps)
      then have "?a div n + 1 \<le> 2 ^ 53" using k assms(1) by simp
      then have "?a div n < 2 ^ 53" by simp
      moreover have "round_half_even ?a n = ?a div n"
        using m k assms(1) by (simp add: round_half_even_def Let_def)
      ultimately show ?thesis using \<open>?j = 1\<close> by simp
    qed
  next
    case False
    with j have j2: "2 \<le> ?j" by simp
    have "?a = (k * 2 ^ ?j) * 2 ^ 52" by (simp add: power_add mult_ac)
    also have "\<dots> < (2 * n) * 2 ^ 52" using lt by simp
    finally have "?a < 2 ^ 53 * n" by simp
    then have "?a div n < 2 ^ 53"
      using k assms(1) by (simp add: div_less_iff_less_mult)
    with round_le_Suc_floor [of ?a n] have "round_half_even ?a n \<le> 2 ^ 53" by linarith
    also have "(2::nat) ^ 53 < 2 ^ 54" by simp
    also have "(2::nat) ^ 54 \<le> 2 ^ ?s"
      using j2 by (intro power_increasing) simp_all
    finally show ?thesis .
  qed
  have "float_div k n = of_nat (round_half_even ?a n) / 2 ^ ?s"
    by (simp add: float_div_def Let_def)
  also have "\<dots> < 1"
  proof -
    have "(of_nat (round_half_even ?a n) :: rat) < of_nat (2 ^ ?s)"
      using r by (simp only: of_nat_less_iff)
    then show ?thesis by simp
  qed
  finally show ?thesis .
qed

section \<open>fit\<close>

lemma count_True_isnull: "length (filter (\<lambda>b. b) (map isnull col)) = count_list col None"
  by (induction col) (auto simp: isnull_def)

lemma mean_isnull:
  "mean (map isnull col) =
     (if col = [] then NaN else Finite (float_div (count_list col None) (length col)))"
  unfolding mean_def count_True_isnull by simp

lemma index_mask_isnull_mean:
  "index (mask p (isnull_mean X)) = map fst (filter (\<lambda>(c, col). p (mean (map isnull col))) X)"
  by (induction X) (auto simp: index_def mask_def isnull_mean_def)

lemma fit_with_threshold:
  assumes "parameters self = Some ps" and "ps ''pct_null_threshold'' = Some (PNum t)"
  shows "fit self X =
     (Return Self,
      self\<lparr>cols_to_drop := Some (Some (map fst (filter
         (\<lambda>(c, col). if fl_eq t (Finite 0) then fl_gt (mean (map isnull col)) (Finite 0)
                      else fl_ge (mean (map isnull col)) t) X)))\<rparr>)"
  using assms
  by (simp add: fit_def infer_feature_types_def convert_woodwork_types_wrapper_def
      Let_def index_mask_isnull_mean)

lemma fl_ge_Finite: "fl_ge (Finite a) (Finite b) = (b \<le> a)"
  by (auto simp: fl_ge_def)

lemma fl_gt_Finite: "fl_gt (Finite a) (Finite b) = (b < a)"
  by (simp add: fl_gt_def)

lemma fl_lt_NaN: "fl_lt t NaN = False"
  by (cases t) auto

lemma fl_gt_NaN: "fl_gt NaN t = False"
  by (simp add: fl_gt_def fl_lt_NaN)

lemma fl_ge_NaN: "fl_ge NaN t = False"
  by (simp add: fl_ge_def fl_lt_NaN)

lemma fl_eq_zero: "fl_eq t (Finite 0) = (t = Finite 0)"
  by (cases t) auto

lemma count_list_le_length: "count_list xs x \<le> length xs"
  by (induction xs) auto

lemma count_list_eq_length: "(count_list xs x = length xs) = list_all (\<lambda>v. v = x) xs"
proof (induction xs)
  case Nil
  then show ?case by simp
next
  case (Cons a xs)
  have "count_list xs x \<le> length xs" by (rule count_list_le_length)
  with Cons show ?case by auto
qed

lemma count_list_pos: "(0 < count_list xs x) = (x \<in> set xs)"
  by (induction xs) auto

lemma quotient_pos:
  "xs \<noteq> [] \<Longrightarrow>
     fl_gt (Finite (float_div (count_list xs x) (length xs))) (Finite 0) = (x \<in> set xs)"
proof -
  assume n: "xs \<noteq> []"
  show ?thesis
  proof (cases "0 < count_list xs x")
    case True
    with n have "0 < float_div (count_list xs x) (length xs)"
      by (intro float_div_pos) simp_all
    with True show ?thesis by (simp add: fl_gt_Finite count_list_pos)
  next
    case False
    then have "count_list xs x = 0" by simp
    then show ?thesis
      using False by (simp add: fl_gt_Finite float_div_zero flip: count_list_pos)
  qed
qed

lemma quotient_ge_one:
  assumes "xs \<noteq> []" and "length xs < 2 ^ 53"
  shows "fl_ge (Finite (float_div (count_list xs x) (length xs))) (Finite 1)
     = list_all (\<lambda>v. v = x) xs"
proof (cases "count_list xs x = length xs")
  case True
  with assms(1) have "float_div (count_list xs x) (length xs) = 1"
    by (simp add: float_div_self)
  with True show ?thesis by (simp add: fl_ge_Finite count_list_eq_length)
next
  case False
  with count_list_le_length [of xs x] have "count_list xs x < length xs" by simp
  with assms(2) have "float_div (count_list xs x) (length xs) < 1"
    by (intro float_div_less_one) simp_all
  with False show ?thesis by (simp add: fl_ge_Finite count_list_eq_length)
qed

lemma recorded_general:
  "(if fl_eq t (Finite 0) then fl_gt (mean (map isnull col)) (Finite 0)
    else fl_ge (mean (map isnull col)) t)
   = (col \<noteq> [] \<and>
       (if t = Finite 0
        then fl_gt (Finite (float_div (count_list col None) (length col))) (Finite 0)
        else fl_ge (Finite (float_div (count_list col None) (length col))) t))"
proof (cases "col = []")
  case True
  then show ?thesis by (simp add: mean_def fl_gt_NaN fl_ge_NaN)
next
  case False
  then show ?thesis by (simp add: mean_isnull fl_eq_zero)
qed

lemma recorded_zero:
  "(if fl_eq (Finite 0) (Finite 0) then fl_gt (mean (map isnull col)) (Finite 0)
    else fl_ge (mean (map isnull col)) (Finite 0))
   = (col \<noteq> [] \<and> None \<in> set col)"
proof (cases "col = []")
  case True
  then show ?thesis by (simp add: mean_def fl_gt_NaN)
next
  case False
  then show ?thesis by (simp add: mean_isnull quotient_pos)
qed

lemma recorded_default:
  "length col < 2 ^ 53 \<Longrightarrow>
   fl_ge (mean (map isnull col)) (Finite 1) = (col \<noteq> [] \<and> list_all (\<lambda>v. v = None) col)"
proof (cases "col = []")
  case True
  then show ?thesis by (simp add: mean_def fl_ge_NaN)
next
  case False
  assume "length col < 2 ^ 53"
  with False show ?thesis by (simp add: mean_isnull quotient_ge_one)
qed

lemma no_arguments:
  "(MyDropNullColumns None None Map.empty :: unit result \<times> 'k transformer) =
     (Return (),
      \<lparr>cols_to_drop = Some None, parameters = Some [''pct_null_threshold'' \<mapsto> PNum (Finite 1)],
       component_obj = Some PNone, random_seed = Some 0\<rparr>)"
  by (simp add: MyDropNullColumns_def MyDropNullColumns_init_def Transformer_init_def fresh_def
      default_pct_null_threshold_def default_random_seed_def fl_gt_def)

text \<open>
  C2. For a transformer whose parameters hold the threshold \<open>t\<close> and a frame with distinct
  labels, \<open>fit\<close> always returns the transformer itself, and changes \<open>_cols_to_drop\<close> only:
  it becomes the list, in column order, of the labels of the columns of \<open>X\<close> whose
  fraction of null cells, the float quotient of the number of null cells by the number
  of rows, is above 0 when \<open>t\<close> is 0, and at least \<open>t\<close> otherwise; a column with no row has
  no fraction and is not recorded. Under the threshold 0 these are the columns with a
  null cell. A transformer constructed with no arguments has the threshold 1, and after
  \<open>fit\<close> on a frame of fewer than \<open>2 ^ 53\<close> rows, where the counts are floats, a column is
  recorded if and only if it has a value and every value of it is null.
\<close>

theorem fit_records_null_columns:
  fixes self :: "'k transformer" and X :: "('k, 'v) frame"
  assumes "distinct (map fst X)"
    and "parameters self = Some ps" and "ps ''pct_null_threshold'' = Some (PNum t)"
  shows "fit self X =
           (Return Self,
            self\<lparr>cols_to_drop := Some (Some (map fst (filter
               (\<lambda>(c, col). col \<noteq> [] \<and>
                  (if t = Finite 0
                   then fl_gt (Finite (float_div (count_list col None) (length col))) (Finite 0)
                   else fl_ge (Finite (float_div (count_list col None) (length col))) t))
               X)))\<rparr>)
       \<and> (t = Finite 0 \<longrightarrow>
            fit self X =
              (Return Self,
               self\<lparr>cols_to_drop := Some (Some (map fst (filter
                  (\<lambda>(c, col). None \<in> set col) X)))\<rparr>))
       \<and> (list_all (\<lambda>(c, col). length col < 2 ^ 53) X \<longrightarrow>
            (\<exists>self0 :: 'k transformer.
               MyDropNullColumns None None Map.empty = (Return (), self0)
             \<and> (\<exists>ps0. parameters self0 = Some ps0
                    \<and> ps0 ''pct_null_threshold'' = Some (PNum (Finite 1)))
             \<and> fit self0 X =
                 (Return Self,
                  self0\<lparr>cols_to_drop := Some (Some (map fst (filter
                     (\<lambda>(c, col). col \<noteq> [] \<and> list_all (\<lambda>v. v = None) col) X)))\<rparr>)))"
proof (intro conjI impI)
  note f = fit_with_threshold [OF assms(2,3), of X]
  show "fit self X =
      (Return Self,
       self\<lparr>cols_to_drop := Some (Some (map fst (filter
          (\<lambda>(c, col). col \<noteq> [] \<and>
             (if t = Finite 0
              then fl_gt (Finite (float_div (count_list col None) (length col))) (Finite 0)
              else fl_ge (Finite (float_div (count_list col None) (length col))) t))
          X)))\<rparr>)"
    using f by (simp only: recorded_general)
  show "fit self X =
      (Return Self,
       self\<lparr>cols_to_drop := Some (Some (map fst (filter (\<lambda>(c, col). None \<in> set col) X)))\<rparr>)"
    if "t = Finite 0"
  proof -
    have "(\<lambda>(c :: 'k, col :: 'v option list). col \<noteq> [] \<and> None \<in> set col)
        = (\<lambda>(c, col). None \<in> set col)"
      by auto
    then show ?thesis
      using f unfolding that recorded_zero by simp
  qed
next
  assume small: "list_all (\<lambda>(c, col). length col < 2 ^ 53) X"
  let ?s = "\<lparr>cols_to_drop = Some None,
      parameters = Some [''pct_null_threshold'' \<mapsto> PNum (Finite 1)],
      component_obj = Some PNone, random_seed = Some 0\<rparr> :: 'k transformer"
  have p: "parameters ?s = Some [''pct_null_threshold'' \<mapsto> PNum (Finite 1)]"
    by simp
  have q: "[''pct_null_threshold'' \<mapsto> PNum (Finite 1)] ''pct_null_threshold'' = Some (PNum (Finite 1))"
    by simp
  have "(case x of (c, col) \<Rightarrow>
        if fl_eq (Finite 1) (Finite 0) then fl_gt (mean (map isnull col)) (Finite 0)
        else fl_ge (mean (map isnull col)) (Finite 1))
      = (case x of (c, col) \<Rightarrow> col \<noteq> [] \<and> list_all (\<lambda>v. v = None) col)"
    if x: "x \<in> set X" for x
  proof -
    obtain c col where xc: "x = (c, col)" by (cases x)
    with small x have "length col < 2 ^ 53"
      unfolding list_all_iff by blast
    then have "fl_ge (mean (map isnull col)) (Finite 1)
        = (col \<noteq> [] \<and> list_all (\<lambda>v. v = None) col)"
      by (rule recorded_default)
    then show ?thesis unfolding xc by simp
  qed
  then have e: "filter (\<lambda>(c, col).
      if fl_eq (Finite 1) (Finite 0) then fl_gt (mean (map isnull col)) (Finite 0)
      else fl_ge (mean (map isnull col)) (Finite 1)) X
      = filter (\<lambda>(c, col). col \<noteq> [] \<and> list_all (\<lambda>v. v = None) col) X"
    by (intro filter_cong refl)
  have f: "fit ?s X =
      (Return Self,
       ?s\<lparr>cols_to_drop := Some (Some (map fst (filter
          (\<lambda>(c, col). col \<noteq> [] \<and> list_all (\<lambda>v. v = None) col) X)))\<rparr>)"
    using fit_with_threshold [OF p q, of X] by (simp only: e)
  show "\<exists>self0 :: 'k transformer.
            MyDropNullColumns None None Map.empty = (Return (), self0)
          \<and> (\<exists>ps0. parameters self0 = Some ps0
                 \<and> ps0 ''pct_null_threshold'' = Some (PNum (Finite 1)))
          \<and> fit self0 X =
              (Return Self,
               self0\<lparr>cols_to_drop := Some (Some (map fst (filter
                  (\<lambda>(c, col). col \<noteq> [] \<and> list_all (\<lambda>v. v = None) col) X)))\<rparr>)"
    using no_arguments p q f by blast
qed

theorem fit_records_null_columns_witness:
  "fit \<lparr>cols_to_drop = Some None,
         parameters = Some [''pct_null_threshold''
                              \<mapsto> PNum (Finite (3602879701896397 / 36028797018963968))],
         component_obj = Some PNone, random_seed = Some 0\<rparr>
       [(''a'', [None, Some (1::nat), Some 1, Some 1, Some 1, Some 1, Some 1, Some 1, Some 1,
                 Some 1]),
        (''b'', [Some 2, Some 2, Some 2, Some 2, Some 2, Some 2, Some 2, Some 2, Some 2, Some 2]),
        (''c'', [None, None, None, None, None, None, None, None, None, None])]
   = (Return Self,
      \<lparr>cols_to_drop = Some (Some [''a'', ''c'']),
       parameters = Some [''pct_null_threshold''
                            \<mapsto> PNum (Finite (3602879701896397 / 36028797018963968))],
       component_obj = Some PNone, random_seed = Some 0\<rparr>)
   \<and> cols_to_drop (snd (fit (snd (MyDropNullColumns None None Map.empty
                                   :: unit result \<times> string transformer))
       [(''a'', [None, Some (1::nat), Some 1, Some 1, Some 1, Some 1, Some 1, Some 1, Some 1,
                 Some 1]),
        (''b'', [Some 2, Some 2, Some 2, Some 2, Some 2, Some 2, Some 2, Some 2, Some 2, Some 2]),
        (''c'', [None, None, None, None, None, None, None, None, None, None])]))
     = Some (Some [''c''])"
proof -
  let ?t = "Finite (3602879701896397 / 36028797018963968)"
  let ?ps = "[''pct_null_threshold'' \<mapsto> PNum ?t]"
  let ?s = "\<lparr>cols_to_drop = Some None, parameters = Some ?ps,
      component_obj = Some PNone, random_seed = Some 0\<rparr> :: string transformer"
  let ?a = "[None, Some (1::nat), Some 1, Some 1, Some 1, Some 1, Some 1, Some 1, Some 1, Some 1]"
  let ?b = "[Some (2::nat), Some 2, Some 2, Some 2, Some 2, Some 2, Some 2, Some 2, Some 2, Some 2]"
  let ?c = "[None :: nat option, None, None, None, None, None, None, None, None, None]"
  let ?X = "[(''a'', ?a), (''b'', ?b), (''c'', ?c)]"
  have d: "distinct (map fst ?X)" by simp
  have h1: "parameters ?s = Some ?ps" by simp
  have h2: "?ps ''pct_null_threshold'' = Some (PNum ?t)" by simp
  have small: "list_all (\<lambda>(c, col). length col < 2 ^ 53) ?X" by simp
  note T = fit_records_null_columns [OF d h1 h2]
  have qa: "float_div (count_list ?a None) (length ?a) = 3602879701896397 / 36028797018963968"
  proof -
    have "count_list ?a None = 1" and "length ?a = 10" by simp_all
    then show ?thesis
      by (simp add: float_div_def shift.simps round_half_even_def Let_def)
  qed
  have qb: "float_div (count_list ?b None) (length ?b) = 0"
    by (simp add: float_div_zero)
  have qc: "float_div (count_list ?c None) (length ?c) = 1"
  proof -
    have "count_list ?c None = length ?c" by simp
    then show ?thesis by (simp add: float_div_self)
  qed
  have "fit ?s ?X =
      (Return Self,
       ?s\<lparr>cols_to_drop := Some (Some (map fst (filter
          (\<lambda>(c, col). col \<noteq> [] \<and>
             (if ?t = Finite 0
              then fl_gt (Finite (float_div (count_list col None) (length col))) (Finite 0)
              else fl_ge (Finite (float_div (count_list col None) (length col))) ?t))
          ?X)))\<rparr>)"
    by (rule T [THEN conjunct1])
  then have A: "fit ?s ?X = (Return Self, ?s\<lparr>cols_to_drop := Some (Some [''a'', ''c''])\<rparr>)"
    unfolding filter.simps prod.case qa qb qc by (simp add: fl_ge_Finite)
  from T [THEN conjunct2, THEN conjunct2] small
  obtain self0 :: "string transformer"
    where m: "MyDropNullColumns None None Map.empty = (Return (), self0)"
      and f: "fit self0 ?X =
        (Return Self,
         self0\<lparr>cols_to_drop := Some (Some (map fst (filter
            (\<lambda>(c, col). col \<noteq> [] \<and> list_all (\<lambda>v. v = None) col) ?X)))\<rparr>)"
    by blast
  from m have "snd (MyDropNullColumns None None Map.empty :: unit result \<times> string transformer)
      = self0"
    by simp
  with f have B: "cols_to_drop (snd (fit (snd (MyDropNullColumns None None Map.empty
      :: unit result \<times> string transformer)) ?X)) = Some (Some [''c''])"
    by simp
  from A B show ?thesis by simp
qed

section \<open>transform\<close>

lemma fit_returns:
  assumes "fit self0 X = (Return Self, self)"
  shows "\<exists>cs. cols_to_drop self = Some (Some cs)"
  using assms
  by (auto simp: fit_def Let_def split: option.splits pyval.splits)

lemma list_ex_not_member: "list_ex (\<lambda>c. c \<notin> A) cs = (\<not> set cs \<subseteq> A)"
  by (auto simp: list_ex_iff)

lemma transform_fitted:
  assumes "cols_to_drop self = Some (Some cs)"
  shows "transform self X2 =
     (if set cs \<subseteq> fst ` set X2 then Return (filter (\<lambda>(c, col). c \<notin> set cs) X2)
      else Raise ValueError, self)"
  using assms
  by (simp add: transform_def drop_columns_def infer_feature_types_def list_ex_not_member)

text \<open>
  C3. After a successful \<open>fit\<close>, \<open>_cols_to_drop\<close> is a list \<open>cs\<close> of labels, and
  \<open>transform\<close> never changes the transformer. On a frame \<open>X2\<close> with distinct labels that
  has every label of \<open>cs\<close> among its columns the result is \<open>X2\<close> without the columns
  labelled in \<open>cs\<close>: the other columns are all there, in order, with their cells as they
  were. On a frame that lacks a label of \<open>cs\<close> \<open>transform\<close> raises ValueError and returns
  no frame.
\<close>

theorem transform_drops_recorded_columns:
  fixes self0 self :: "'k transformer" and X :: "('k, 'v) frame" and X2 :: "('k, 'w) frame"
  assumes "fit self0 X = (Return Self, self)" and "distinct (map fst X2)"
  shows "\<exists>cs. cols_to_drop self = Some (Some cs)
     \<and> snd (transform self X2) = self
     \<and> (if set cs \<subseteq> fst ` set X2
        then fst (transform self X2) = Return (filter (\<lambda>(c, col). c \<notin> set cs) X2)
           \<and> (\<exists>Y. fst (transform self X2) = Return Y
                 \<and> set Y = {(c, col). (c, col) \<in> set X2 \<and> c \<notin> set cs})
        else fst (transform self X2) = Raise ValueError)"
proof -
  from fit_returns [OF assms(1)] obtain cs where cs: "cols_to_drop self = Some (Some cs)"
    by blast
  have "snd (transform self X2) = self"
    by (simp add: transform_fitted [OF cs])
  moreover have "set cs \<subseteq> fst ` set X2 \<Longrightarrow>
      fst (transform self X2) = Return (filter (\<lambda>(c, col). c \<notin> set cs) X2)"
    by (simp add: transform_fitted [OF cs])
  moreover have "set (filter (\<lambda>(c, col). c \<notin> set cs) X2)
      = {(c, col). (c, col) \<in> set X2 \<and> c \<notin> set cs}"
    by auto
  moreover have "\<not> set cs \<subseteq> fst ` set X2 \<Longrightarrow> fst (transform self X2) = Raise ValueError"
    by (simp add: transform_fitted [OF cs])
  ultimately show ?thesis
    using cs by auto
qed

theorem transform_drops_recorded_columns_witness:
  "fit \<lparr>cols_to_drop = Some None,
         parameters = Some [''pct_null_threshold'' \<mapsto> PNum (Finite 1)],
         component_obj = Some PNone, random_seed = Some 0\<rparr>
       [(''a'', [None]), (''b'', [Some (1::nat)])]
   = (Return Self,
      \<lparr>cols_to_drop = Some (Some [''a'']),
       parameters = Some [''pct_null_threshold'' \<mapsto> PNum (Finite 1)],
       component_obj = Some PNone, random_seed = Some 0\<rparr>)
   \<and> transform \<lparr>cols_to_drop = Some (Some [''a'']),
         parameters = Some [''pct_null_threshold'' \<mapsto> PNum (Finite 1)],
         component_obj = Some PNone, random_seed = Some 0\<rparr>
       [(''a'', [Some (5::int), None]), (''b'', [Some 7, Some 8])]
   = (Return [(''b'', [Some 7, Some 8])],
      \<lparr>cols_to_drop = Some (Some [''a'']),
       parameters = Some [''pct_null_threshold'' \<mapsto> PNum (Finite 1)],
       component_obj = Some PNone, random_seed = Some 0\<rparr>)"
proof -
  let ?ps = "[''pct_null_threshold'' \<mapsto> PNum (Finite 1)]"
  let ?s0 = "\<lparr>cols_to_drop = Some None, parameters = Some ?ps,
      component_obj = Some PNone, random_seed = Some 0\<rparr> :: string transformer"
  let ?s1 = "\<lparr>cols_to_drop = Some (Some [''a'']), parameters = Some ?ps,
      component_obj = Some PNone, random_seed = Some 0\<rparr> :: string transformer"
  let ?X = "[(''a'', [None]), (''b'', [Some (1::nat)])]"
  let ?X2 = "[(''a'', [Some (5::int), None]), (''b'', [Some 7, Some 8])]"
  have h1: "parameters ?s0 = Some ?ps" by simp
  have h2: "?ps ''pct_null_threshold'' = Some (PNum (Finite 1))" by simp
  have f: "fit ?s0 ?X = (Return Self, ?s1)"
    by (simp add: fit_with_threshold [OF h1 h2] mean_isnull float_div_self float_div_zero
        fl_ge_Finite)
  have d: "distinct (map fst ?X2)" by simp
  from transform_drops_recorded_columns [OF f d]
  obtain cs where cs: "cols_to_drop ?s1 = Some (Some cs)"
    and st: "snd (transform ?s1 ?X2) = ?s1"
    and r: "if set cs \<subseteq> fst ` set ?X2
        then fst (transform ?s1 ?X2) = Return (filter (\<lambda>(c, col). c \<notin> set cs) ?X2)
           \<and> (\<exists>Y. fst (transform ?s1 ?X2) = Return Y
                 \<and> set Y = {(c, col). (c, col) \<in> set ?X2 \<and> c \<notin> set cs})
        else fst (transform ?s1 ?X2) = Raise ValueError"
    by blast
  have c: "cs = [''a'']"
    using cs by simp
  have "fst (transform ?s1 ?X2) = Return [(''b'', [Some 7, Some 8])]"
    using r unfolding c by simp
  with st have "transform ?s1 ?X2 = (Return [(''b'', [Some 7, Some 8])], ?s1)"
    by (simp add: prod_eq_iff)
  with f show ?thesis
    by (rule conjI)
qed

text \<open>
  C3 needs the frame to have the recorded columns. "For every frame the result is the
  frame without the recorded columns" fails on a frame that lacks one: fitted on a frame
  whose column \<open>a\<close> is all null, \<open>transform\<close> raises on a frame that has only a column
  \<open>b\<close>.
\<close>

theorem transform_missing_column_counterexample:
  "fit (snd (MyDropNullColumns None None Map.empty :: unit result \<times> string transformer))
       [(''a'', [None]), (''b'', [Some (1::nat)])]
   = (Return Self,
      \<lparr>cols_to_drop = Some (Some [''a'']),
       parameters = Some [''pct_null_threshold'' \<mapsto> PNum (Finite 1)],
       component_obj = Some PNone, random_seed = Some 0\<rparr>)
   \<and> fst (transform \<lparr>cols_to_drop = Some (Some [''a'']),
              parameters = Some [''pct_null_threshold'' \<mapsto> PNum (Finite 1)],
              component_obj = Some PNone, random_seed = Some 0\<rparr>
            [(''b'', [Some (7::int)])])
     = Raise ValueError"
proof -
  let ?ps = "[''pct_null_threshold'' \<mapsto> PNum (Finite 1)]"
  let ?s0 = "\<lparr>cols_to_drop = Some None, parameters = Some ?ps,
      component_obj = Some PNone, random_seed = Some 0\<rparr> :: string transformer"
  have h1: "parameters ?s0 = Some ?ps" by simp
  have h2: "?ps ''pct_null_threshold'' = Some (PNum (Finite 1))" by simp
  have "fit ?s0 [(''a'', [None]), (''b'', [Some (1::nat)])]
      = (Return Self, ?s0\<lparr>cols_to_drop := Some (Some [''a''])\<rparr>)"
    by (simp add: fit_with_threshold [OF h1 h2] mean_isnull float_div_self float_div_zero
        fl_ge_Finite)
  then show ?thesis
    by (simp add: no_arguments transform_def drop_columns_def infer_feature_types_def)
qed

section \<open>The threshold\<close>

lemma fl_ge_trans: "fl_ge p t2 \<Longrightarrow> fl_le t1 t2 \<Longrightarrow> fl_ge p t1"
  by (cases p; cases t1; cases t2) (auto simp: fl_ge_def fl_le_def)

lemma fl_pos_not_zero: "fl_lt (Finite 0) t \<Longrightarrow> \<not> fl_eq t (Finite 0)"
  by (cases t) auto

lemma fl_pos_le: "fl_lt (Finite 0) t1 \<Longrightarrow> fl_le t1 t2 \<Longrightarrow> fl_lt (Finite 0) t2"
  by (cases t1; cases t2) (auto simp: fl_ge_def fl_le_def)

lemma fl_ge_pos: "fl_ge p t \<Longrightarrow> fl_lt (Finite 0) t \<Longrightarrow> fl_gt p (Finite 0)"
  by (cases p; cases t) (auto simp: fl_ge_def fl_gt_def)

text \<open>
  C5. Recording is antitone in the threshold. For thresholds \<open>0 < t1 \<le> t2 \<le> 1\<close> and any
  frame, the labels recorded by \<open>fit\<close> under \<open>t2\<close> are among those recorded under \<open>t1\<close>,
  and the labels recorded under a threshold in \<open>(0, 1]\<close> are among those recorded under
  the threshold 0.
\<close>

theorem recorded_columns_antitone:
  fixes a0 a1 a2 :: "'k transformer" and X :: "('k, 'v) frame"
  assumes "parameters a0 = Some p0" and "p0 ''pct_null_threshold'' = Some (PNum (Finite 0))"
    and "parameters a1 = Some p1" and "p1 ''pct_null_threshold'' = Some (PNum t1)"
    and "parameters a2 = Some p2" and "p2 ''pct_null_threshold'' = Some (PNum t2)"
    and "fl_lt (Finite 0) t1" and "fl_le t1 t2" and "fl_le t2 (Finite 1)"
  shows "\<exists>c0 c1 c2.
      cols_to_drop (snd (fit a0 X)) = Some (Some c0)
    \<and> cols_to_drop (snd (fit a1 X)) = Some (Some c1)
    \<and> cols_to_drop (snd (fit a2 X)) = Some (Some c2)
    \<and> set c2 \<subseteq> set c1 \<and> set c1 \<subseteq> set c0"
proof -
  let ?m = "\<lambda>col :: 'v option list. mean (map isnull col)"
  let ?c0 = "map fst (filter (\<lambda>(c, col). fl_gt (?m col) (Finite 0)) X)"
  let ?c1 = "map fst (filter (\<lambda>(c, col). fl_ge (?m col) t1) X)"
  let ?c2 = "map fst (filter (\<lambda>(c, col). fl_ge (?m col) t2) X)"
  have n1: "\<not> fl_eq t1 (Finite 0)"
    using assms(7) by (rule fl_pos_not_zero)
  have n2: "\<not> fl_eq t2 (Finite 0)"
    using fl_pos_le [OF assms(7,8)] by (rule fl_pos_not_zero)
  have f0: "cols_to_drop (snd (fit a0 X)) = Some (Some ?c0)"
    by (simp add: fit_with_threshold [OF assms(1,2)])
  have f1: "cols_to_drop (snd (fit a1 X)) = Some (Some ?c1)"
    using n1 by (simp add: fit_with_threshold [OF assms(3,4)])
  have f2: "cols_to_drop (snd (fit a2 X)) = Some (Some ?c2)"
    using n2 by (simp add: fit_with_threshold [OF assms(5,6)])
  have s21: "set ?c2 \<subseteq> set ?c1"
    using fl_ge_trans [OF _ assms(8)] by auto
  have s10: "set ?c1 \<subseteq> set ?c0"
    using fl_ge_pos [OF _ assms(7)] by auto
  show ?thesis
    using f0 f1 f2 s21 s10 by blast
qed

theorem recorded_columns_antitone_witness:
  "(\<exists>c0 c1 c2.
      cols_to_drop (snd (fit
          \<lparr>cols_to_drop = Some None,
           parameters = Some [''pct_null_threshold'' \<mapsto> PNum (Finite 0)],
           component_obj = Some PNone, random_seed = Some 0\<rparr>
          [(''a'', [None, Some (1::nat), Some 1, Some 1]), (''b'', [None, None, Some 2, Some 2]),
           (''c'', [None, None, None, None]), (''d'', [Some 4, Some 4, Some 4, Some 4])]))
        = Some (Some c0)
    \<and> cols_to_drop (snd (fit
          \<lparr>cols_to_drop = Some None,
           parameters = Some [''pct_null_threshold'' \<mapsto> PNum (Finite (1/2))],
           component_obj = Some PNone, random_seed = Some 0\<rparr>
          [(''a'', [None, Some (1::nat), Some 1, Some 1]), (''b'', [None, None, Some 2, Some 2]),
           (''c'', [None, None, None, None]), (''d'', [Some 4, Some 4, Some 4, Some 4])]))
        = Some (Some c1)
    \<and> cols_to_drop (snd (fit
          \<lparr>cols_to_drop = Some None,
           parameters = Some [''pct_null_threshold'' \<mapsto> PNum (Finite 1)],
           component_obj = Some PNone, random_seed = Some 0\<rparr>
          [(''a'', [None, Some (1::nat), Some 1, Some 1]), (''b'', [None, None, Some 2, Some 2]),
           (''c'', [None, None, None, None]), (''d'', [Some 4, Some 4, Some 4, Some 4])]))
        = Some (Some c2)
    \<and> set c2 \<subseteq> set c1 \<and> set c1 \<subseteq> set c0)
   \<and> cols_to_drop (snd (fit
          \<lparr>cols_to_drop = Some None,
           parameters = Some [''pct_null_threshold'' \<mapsto> PNum (Finite 0)],
           component_obj = Some PNone, random_seed = Some 0\<rparr>
          [(''a'', [None, Some (1::nat), Some 1, Some 1]), (''b'', [None, None, Some 2, Some 2]),
           (''c'', [None, None, None, None]), (''d'', [Some 4, Some 4, Some 4, Some 4])]))
        = Some (Some [''a'', ''b'', ''c''])
   \<and> cols_to_drop (snd (fit
          \<lparr>cols_to_drop = Some None,
           parameters = Some [''pct_null_threshold'' \<mapsto> PNum (Finite (1/2))],
           component_obj = Some PNone, random_seed = Some 0\<rparr>
          [(''a'', [None, Some (1::nat), Some 1, Some 1]), (''b'', [None, None, Some 2, Some 2]),
           (''c'', [None, None, None, None]), (''d'', [Some 4, Some 4, Some 4, Some 4])]))
        = Some (Some [''b'', ''c''])
   \<and> cols_to_drop (snd (fit
          \<lparr>cols_to_drop = Some None,
           parameters = Some [''pct_null_threshold'' \<mapsto> PNum (Finite 1)],
           component_obj = Some PNone, random_seed = Some 0\<rparr>
          [(''a'', [None, Some (1::nat), Some 1, Some 1]), (''b'', [None, None, Some 2, Some 2]),
           (''c'', [None, None, None, None]), (''d'', [Some 4, Some 4, Some 4, Some 4])]))
        = Some (Some [''c''])"
proof -
  let ?p0 = "[''pct_null_threshold'' \<mapsto> PNum (Finite 0)]"
  let ?p1 = "[''pct_null_threshold'' \<mapsto> PNum (Finite (1/2))]"
  let ?p2 = "[''pct_null_threshold'' \<mapsto> PNum (Finite 1)]"
  let ?a0 = "\<lparr>cols_to_drop = Some None, parameters = Some ?p0,
      component_obj = Some PNone, random_seed = Some 0\<rparr> :: string transformer"
  let ?a1 = "\<lparr>cols_to_drop = Some None, parameters = Some ?p1,
      component_obj = Some PNone, random_seed = Some 0\<rparr> :: string transformer"
  let ?a2 = "\<lparr>cols_to_drop = Some None, parameters = Some ?p2,
      component_obj = Some PNone, random_seed = Some 0\<rparr> :: string transformer"
  have h1: "parameters ?a0 = Some ?p0" by simp
  have h2: "?p0 ''pct_null_threshold'' = Some (PNum (Finite 0))" by simp
  have h3: "parameters ?a1 = Some ?p1" by simp
  have h4: "?p1 ''pct_null_threshold'' = Some (PNum (Finite (1/2)))" by simp
  have h5: "parameters ?a2 = Some ?p2" by simp
  have h6: "?p2 ''pct_null_threshold'' = Some (PNum (Finite 1))" by simp
  have h7: "fl_lt (Finite 0) (Finite (1/2))" by simp
  have h8: "fl_le (Finite (1/2)) (Finite 1)" by (simp add: fl_le_Finite)
  have h9: "fl_le (Finite 1) (Finite 1)" by (simp add: fl_le_Finite)
  let ?X = "[(''a'', [None, Some (1::nat), Some 1, Some 1]), (''b'', [None, None, Some 2, Some 2]),
      (''c'', [None, None, None, None]), (''d'', [Some 4, Some 4, Some 4, Some 4])]"
  have q: "float_div 0 4 = 0" "float_div 1 4 = 1 / 4" "float_div 2 4 = 1 / 2"
    "float_div 4 4 = 1"
    by (simp_all add: float_div_def shift.simps round_half_even_def Let_def)
  let ?A = "[None, Some (1::nat), Some 1, Some 1]"
  let ?B = "[None, None, Some (2::nat), Some 2]"
  let ?C = "[None :: nat option, None, None, None]"
  let ?D = "[Some (4::nat), Some 4, Some 4, Some 4]"
  have "count_list ?A None = 1" and "count_list ?B None = 2" and "count_list ?C None = 4"
    and "count_list ?D None = 0"
    and "length ?A = 4" and "length ?B = 4" and "length ?C = 4" and "length ?D = 4"
    by simp_all
  then have fA: "float_div (count_list ?A None) (length ?A) = 1 / 4"
    and fB: "float_div (count_list ?B None) (length ?B) = 1 / 2"
    and fC: "float_div (count_list ?C None) (length ?C) = 1"
    and fD: "float_div (count_list ?D None) (length ?D) = 0"
    by (simp_all only: q)
  have m: "mean (map isnull ?A) = Finite (1 / 4)" "mean (map isnull ?B) = Finite (1 / 2)"
    "mean (map isnull ?C) = Finite 1" "mean (map isnull ?D) = Finite 0"
    unfolding mean_isnull fA fB fC fD by simp_all
  have v0: "cols_to_drop (snd (fit ?a0 ?X)) = Some (Some [''a'', ''b'', ''c''])"
    unfolding fit_with_threshold [OF h1 h2] filter.simps prod.case m
    by (simp add: fl_gt_def)
  have v1: "cols_to_drop (snd (fit ?a1 ?X)) = Some (Some [''b'', ''c''])"
    unfolding fit_with_threshold [OF h3 h4] filter.simps prod.case m
    by (simp add: fl_ge_Finite)
  have v2: "cols_to_drop (snd (fit ?a2 ?X)) = Some (Some [''c''])"
    unfolding fit_with_threshold [OF h5 h6] filter.simps prod.case m
    by (simp add: fl_ge_Finite)
  show ?thesis
    using recorded_columns_antitone [OF h1 h2 h3 h4 h5 h6 h7 h8 h9, of ?X] v0 v1 v2
    by (intro conjI)
qed

section \<open>The component graph of the nonlinear pipeline\<close>

lemma before_shorter:
  "s \<in> set (takeWhile (\<lambda>x. x \<noteq> k) order) \<Longrightarrow>
     length (takeWhile (\<lambda>x. x \<noteq> s) order) < length (takeWhile (\<lambda>x. x \<noteq> k) order)"
proof (induction order)
  case Nil
  then show ?case by simp
next
  case (Cons x xs)
  show ?case
  proof (cases "x = k")
    case True
    with Cons.prems show ?thesis by simp
  next
    case False
    show ?thesis
    proof (cases "x = s")
      case True
      with False show ?thesis by simp
    next
      case ns: False
      with False Cons.prems have "s \<in> set (takeWhile (\<lambda>x. x \<noteq> k) xs)" by simp
      with Cons.IH False ns show ?thesis by simp
    qed
  qed
qed

lemma is_key_before:
  "is_key (before order k) p \<Longrightarrow>
     \<exists>s. p = PStr s \<and> length (before order s) < length (before order k)"
  by (cases p) (auto simp: is_key_def before_def before_shorter)

lemma edges_iff:
  "(p, q) \<in> set (edges g) = (\<exists>k v. (k, v) \<in> set g \<and> q = PStr k \<and> p \<in> set (parents v))"
  by (auto simp: edges_def)

lemma topological_acyclic:
  assumes "topological g order"
  shows "acyclic (set (edges g))"
proof -
  let ?f = "\<lambda>x. case x of PStr s \<Rightarrow> length (before order s) | _ \<Rightarrow> 0"
  have "set (edges g) \<subseteq> measure ?f"
  proof
    fix e assume e: "e \<in> set (edges g)"
    obtain p q where pq: "e = (p, q)" by (cases e)
    with e obtain k v where kv: "(k, v) \<in> set g" "q = PStr k" "p \<in> set (parents v)"
      by (auto simp: edges_iff)
    from assms kv have "is_key (before order k) p"
      by (auto simp: topological_def list_all_iff)
    then obtain s where "p = PStr s" "length (before order s) < length (before order k)"
      using is_key_before by blast
    with kv pq show "e \<in> measure ?f" by simp
  qed
  then have "wf (set (edges g))"
    using wf_measure by (rule wf_subset [rotated])
  then show ?thesis by (rule wf_acyclic)
qed

lemma nonlinear_topological:
  "topological nonlinear_component_graph (map fst nonlinear_component_graph)"
  by (simp add: topological_def nonlinear_component_graph_def before_def is_key_def)

text \<open>
  C4. In the \<open>component_graph\<close> dictionary of
  \<open>CustomNonlinearMulticlassClassificationPipeline\<close> the keys are distinct, every value is a
  non-empty list whose first element is the name of a component and whose other elements,
  the parent links, are keys of the dictionary; the parent relation is acyclic, and the
  order in which the keys are written is a topological order: every parent stands before
  the nodes it feeds.
\<close>

theorem nonlinear_component_graph_is_dag:
  "class_var CustomNonlinearMulticlassClassificationPipeline ''component_graph''
     = Some (PDict nonlinear_component_graph)
   \<and> distinct (map fst nonlinear_component_graph)
   \<and> list_all (entry_ok (map fst nonlinear_component_graph))
        (map snd nonlinear_component_graph)
   \<and> acyclic (set (edges nonlinear_component_graph))
   \<and> topological nonlinear_component_graph
        [''Imputer'', ''Encoder'', ''Random Forest Clf'', ''Elastic Net Clf'', ''Final Estimator'']"
proof (intro conjI)
  show "class_var CustomNonlinearMulticlassClassificationPipeline ''component_graph''
     = Some (PDict nonlinear_component_graph)"
    by (simp add: class_var_def CustomNonlinearMulticlassClassificationPipeline_def)
  show "distinct (map fst nonlinear_component_graph)"
    by (simp add: nonlinear_component_graph_def)
  show "list_all (entry_ok (map fst nonlinear_component_graph))
        (map snd nonlinear_component_graph)"
    by (simp add: nonlinear_component_graph_def entry_ok_def is_key_def)
  show "acyclic (set (edges nonlinear_component_graph))"
    using nonlinear_topological by (rule topological_acyclic)
  show "topological nonlinear_component_graph
        [''Imputer'', ''Encoder'', ''Random Forest Clf'', ''Elastic Net Clf'', ''Final Estimator'']"
    using nonlinear_topological by (simp add: nonlinear_component_graph_def)
qed

section \<open>The parameters of the instantiations\<close>

lemma class_defs_simps:
  "class_var CustomMulticlassClassificationPipeline ''component_graph''
     = Some (PList [PStr ''Imputer'', PStr ''Random Forest Classifier''])"
  "class_var CustomPipeline_3 ''component_graph''
     = Some (PList [PStr ''Imputer'', PStr ''One Hot Encoder'', PStr ''Standard Scaler'',
                    PStr ''Logistic Regression Classifier''])"
  "class_var CustomPipeline_4 ''component_graph''
     = Some (PList [PStr ''Imputer'', PClass ''MyDropNullColumns'',
                    PStr ''DateTime Featurization Component'', PStr ''One Hot Encoder'',
                    PStr ''Random Forest Classifier''])"
  by (simp_all add: class_var_def CustomMulticlassClassificationPipeline_def
      CustomPipeline_3_def CustomPipeline_4_def)

text \<open>
  C6. Every pipeline instantiation of the notebook passes as \<open>parameters\<close> a two-level
  dictionary: each key is the name of a component of the class instantiated, and its
  value is a dictionary from parameter names to parameter values. Three of the five
  pass the empty dictionary.
\<close>

theorem instantiations_two_level:
  "list_all (\<lambda>(cd, v). two_level cd v) instantiations
   \<and> map snd instantiations
       = [PDict [], PDict [], parameters_cell, PDict [],
          PDict [(''Imputer'', PDict [(''numeric_impute_strategy'', PStr ''median'')])]]"
  by (simp add: instantiations_def two_level_def parameters_cell_def component_parameters_def
      component_names_def component_name_def class_defs_simps)

section \<open>The pipeline classes\<close>

text \<open>
  C7. Every pipeline class defined in the notebook (seven definitions, four of them of
  \<open>CustomPipeline\<close>) has the base class \<open>MulticlassClassificationPipeline\<close> and a class
  variable \<open>component_graph\<close> that is either a non-empty list of components, each the name
  of a component or a class the notebook defines as a subclass of \<open>Transformer\<close>, or a
  dictionary of named components, with distinct keys and every entry the list of a
  component name and of parents that are keys. Six are lists and one is a dictionary.
  The two other classes are the custom components, subclasses of \<open>Transformer\<close>.
\<close>

theorem pipeline_classes_subclass_base:
  "list_all pipeline_class_ok (filter is_pipeline_class class_defs)
   \<and> map class_name (filter is_pipeline_class class_defs)
       = [''CustomMulticlassClassificationPipeline'',
          ''CustomNonlinearMulticlassClassificationPipeline'',
          ''CustomComponentMulticlassClassificationPipeline'',
          ''CustomPipeline'', ''CustomPipeline'', ''CustomPipeline'', ''CustomPipeline'']
   \<and> map (\<lambda>cd. map_option is_dict (class_var cd ''component_graph''))
         (filter is_pipeline_class class_defs)
       = [Some False, Some True, Some False, Some False, Some False, Some False, Some False]
   \<and> map (\<lambda>cd. (class_name cd, base cd)) (filter (\<lambda>cd. \<not> is_pipeline_class cd) class_defs)
       = [(''NewTransformer'', ''Transformer''), (''MyDropNullColumns'', ''Transformer'')]"
  by (simp add: class_defs_def is_pipeline_class_def ends_with_def pipeline_class_ok_def
      component_graph_ok_def is_component_def entry_ok_def is_key_def
      nonlinear_component_graph_def
      class_var_def CustomMulticlassClassificationPipeline_def
      CustomNonlinearMulticlassClassificationPipeline_def NewTransformer_def
      CustomComponentMulticlassClassificationPipeline_def CustomPipeline_1_def
      CustomPipeline_2_def CustomPipeline_3_def MyDropNullColumns_class_def CustomPipeline_4_def)

end
